theory Spec2Isabelle
  imports Main
begin

section \<open>Data model\<close>

text \<open>
  The debugger core of \<^verbatim>\<open>simple_debugger.py\<close> is the class \<^verbatim>\<open>DebuggerCore(bdb.Bdb)\<close>
  together with \<^verbatim>\<open>run_script\<close> and \<^verbatim>\<open>main\<close>. Python strings are modelled as
  \<^typ>\<open>string\<close>, one \<^typ>\<open>char\<close> per character of the Python string.

  Exceptions are values. Three classes matter to the handlers of the program:
  \<^verbatim>\<open>bdb.BdbQuit\<close> (a subclass of \<^verbatim>\<open>Exception\<close>), any other instance of
  \<^verbatim>\<open>Exception\<close>, and an instance of \<^verbatim>\<open>BaseException\<close> that is not an
  \<^verbatim>\<open>Exception\<close> (\<^verbatim>\<open>KeyboardInterrupt\<close>, \<^verbatim>\<open>SystemExit\<close>, \<^verbatim>\<open>GeneratorExit\<close>).
  The string carried is the text \<^verbatim>\<open>str(e)\<close>.
\<close>

datatype pyexc = BdbQuit | ExceptionInst string | BaseExceptionInst string

text \<open>\<^verbatim>\<open>isinstance(e, Exception)\<close>: what an \<^verbatim>\<open>except Exception\<close> clause catches.\<close>

fun is_Exception :: "pyexc \<Rightarrow> bool" where
  "is_Exception BdbQuit = True"
| "is_Exception (ExceptionInst msg) = True"
| "is_Exception (BaseExceptionInst msg) = False"

text \<open>
  A bound value is used by the program only through \<^verbatim>\<open>repr(v)\<close>, which either
  returns a string or raises. A value is therefore represented by what its
  \<^verbatim>\<open>__repr__\<close> does.
\<close>

datatype pyobj = Repr_returns string | Repr_raises pyexc

fun repr :: "pyobj \<Rightarrow> pyexc + string" where
  "repr (Repr_returns r) = Inr r"
| "repr (Repr_raises e) = Inl e"

text \<open>
  A code object (\<^verbatim>\<open>frame.f_code\<close>): file name, name of the callable, and whether
  \<^verbatim>\<open>co_flags\<close> has one of the generator or coroutine bits. A frame has an identity
  (Python compares frames with \<^verbatim>\<open>is\<close>), its code, the current line, the locals in
  insertion order, and the parent frame \<^verbatim>\<open>f_back\<close>, \<^verbatim>\<open>None\<close> at the root.
\<close>

record code =
  co_filename :: string
  co_name :: string
  co_generator :: bool

datatype frame =
  Frame (f_id: nat) (f_code: code) (f_lineno: int)
        (f_locals: "(string \<times> pyobj) list") (f_back: "frame option")

text \<open>The state dictionary that \<^verbatim>\<open>_update_ui\<close> puts on the outward queue.\<close>

record stack_entry =
  se_filename :: string
  se_lineno :: int
  se_function :: string

record snapshot =
  st_filename :: string
  st_lineno :: int
  st_function :: string
  st_locals :: "(string \<times> string) list"
  st_stack :: "stack_entry list"
  st_exception :: "string option"

section \<open>Snapshot builder\<close>

text \<open>\<^verbatim>\<open>str.startswith\<close> and assignment \<^verbatim>\<open>result[k] = v\<close> to an insertion-ordered dict.\<close>

definition startswith :: "string \<Rightarrow> string \<Rightarrow> bool" where
  "startswith s p = (take (length p) s = p)"

fun dict_set :: "('k \<times> 'v) list \<Rightarrow> 'k \<Rightarrow> 'v \<Rightarrow> ('k \<times> 'v) list" where
  "dict_set [] k v = [(k, v)]"
| "dict_set ((k', v') # d) k v =
     (if k' = k then (k, v) # d else (k', v') # dict_set d k v)"

text \<open>
  \<^verbatim>\<open>_safe_repr_dict\<close>: the loop over \<^verbatim>\<open>d.items()\<close> with the accumulator
  \<^verbatim>\<open>result\<close>. The \<^verbatim>\<open>try\<close> block catches \<^verbatim>\<open>Exception\<close> only, so any other
  exception raised by \<^verbatim>\<open>repr\<close> leaves the function (\<open>Inl\<close>).
\<close>

fun safe_repr_loop ::
  "(string \<times> string) list \<Rightarrow> (string \<times> pyobj) list \<Rightarrow> pyexc + (string \<times> string) list" where
  "safe_repr_loop result [] = Inr result"
| "safe_repr_loop result ((k, v) # items) =
     (if startswith k ''__'' then safe_repr_loop result items
      else (case repr v of
              Inr r \<Rightarrow> safe_repr_loop (dict_set result k (take 100 r)) items
            | Inl e \<Rightarrow>
                if is_Exception e
                then safe_repr_loop (dict_set result k ''<error getting repr>'') items
                else Inl e))"

definition safe_repr_dict :: "(string \<times> pyobj) list \<Rightarrow> pyexc + (string \<times> string) list" where
  "safe_repr_dict d = safe_repr_loop [] d"

text \<open>
  \<^verbatim>\<open>Path(p).name\<close> for a POSIX path: the path is split at \<^verbatim>\<open>/\<close>, empty and
  \<^verbatim>\<open>.\<close> components are dropped, and the name is the last component left, or
  the empty string.
\<close>

fun split_sep :: "string \<Rightarrow> string \<Rightarrow> string list" where
  "split_sep cur [] = [cur]"
| "split_sep cur (c # cs) =
     (if c = CHR ''/'' then cur # split_sep [] cs else split_sep (cur @ [c]) cs)"

definition path_parts :: "string \<Rightarrow> string list" where
  "path_parts p = filter (\<lambda>x. x \<noteq> [] \<and> x \<noteq> ''.'') (split_sep [] p)"

definition path_name :: "string \<Rightarrow> string" where
  "path_name p = (case rev (path_parts p) of [] \<Rightarrow> [] | x # xs \<Rightarrow> x)"

text \<open>
  \<^verbatim>\<open>_get_stack_info\<close>: the \<^verbatim>\<open>while f is not None\<close> loop appends one entry per
  frame and follows \<^verbatim>\<open>f_back\<close>; the result is the slice \<^verbatim>\<open>stack[:10]\<close>.
\<close>

definition frame_entry :: "frame \<Rightarrow> stack_entry" where
  "frame_entry f =
     \<lparr> se_filename = path_name (co_filename (f_code f)),
       se_lineno = f_lineno f,
       se_function = co_name (f_code f) \<rparr>"

fun stack_loop :: "stack_entry list \<Rightarrow> frame option \<Rightarrow> stack_entry list" where
  "stack_loop stack None = stack"
| "stack_loop stack (Some (Frame i c l ls b)) =
     stack_loop (stack @ [frame_entry (Frame i c l ls b)]) b"

definition get_stack_info :: "frame \<Rightarrow> stack_entry list" where
  "get_stack_info frame = take 10 (stack_loop [] (Some frame))"

text \<open>
  The parent-frame chain of a frame, innermost first, and the depth of a frame: the
  number of frames from it to the root.
\<close>

fun frame_chain :: "frame \<Rightarrow> frame list" where
  "frame_chain (Frame i c l ls None) = [Frame i c l ls None]"
| "frame_chain (Frame i c l ls (Some p)) = Frame i c l ls (Some p) # frame_chain p"

definition frame_depth :: "frame \<Rightarrow> nat" where
  "frame_depth f = length (frame_chain f)"

text \<open>
  The display string the builder stores for a retained value: the first 100
  characters of its \<^verbatim>\<open>repr\<close>, or the placeholder when \<^verbatim>\<open>repr\<close> raises.
\<close>

definition display :: "pyobj \<Rightarrow> string" where
  "display v = (case repr v of Inr r \<Rightarrow> take 100 r | Inl e \<Rightarrow> ''<error getting repr>'')"

definition reserved :: "string \<Rightarrow> bool" where
  "reserved k = startswith k ''__''"


section \<open>Debugger state and the inherited stepping logic\<close>

text \<open>
  \<^verbatim>\<open>DebuggerCore\<close> inherits its stepping logic from \<^verbatim>\<open>bdb.Bdb\<close> of the Python
  standard library (\<^verbatim>\<open>Lib/bdb.py\<close>, the same text in CPython 3.11 and 3.12). The
  methods the program reaches are embedded below under their own names. The
  program never sets a breakpoint and passes no \<^verbatim>\<open>skip\<close> patterns, so
  \<^verbatim>\<open>self.breaks\<close> is the empty dict and \<^verbatim>\<open>self.skip\<close> is \<^verbatim>\<open>None\<close> throughout.

  The trace facility of the interpreter calls \<^verbatim>\<open>trace_dispatch(frame, event, arg)\<close>.
  For an \<^verbatim>\<open>exception\<close> event, \<^verbatim>\<open>arg\<close> is the triple (type, value, traceback);
  the model keeps what the code reads of it: whether the type is
  \<^verbatim>\<open>StopIteration\<close> or \<^verbatim>\<open>GeneratorExit\<close>, the text \<^verbatim>\<open>str(arg[1])\<close>, and
  whether the traceback is \<^verbatim>\<open>None\<close>.
\<close>

datatype exc_class = StopIteration | GeneratorExit | OtherException

record exc_info =
  exc_type :: exc_class
  exc_str :: string
  exc_tb_is_None :: bool

datatype event =
  Line | Call | Return | Exception exc_info | C_call | C_exception | C_return | Unknown_event

text \<open>What a trace function returns: itself, or \<^verbatim>\<open>None\<close>.\<close>

datatype retval = Trace_dispatch | PyNone

text \<open>
  A call in the execution context returns a value, raises, or never returns
  because it waits on the empty command queue. The state is returned in every case:
  the queues are shared with the observer and outlive a raise.
\<close>

datatype 'r signal = Ret 'r | Raise pyexc | Block

text \<open>
  The debugger object as \<^verbatim>\<open>__init__\<close> leaves it: the two queues, \<^verbatim>\<open>current_frame\<close>
  and, from \<^verbatim>\<open>Bdb.__init__\<close>, \<^verbatim>\<open>frame_returning\<close>. \<open>cmd_queue\<close> holds, in order, the
  commands the observer issues; a blocking \<^verbatim>\<open>get\<close> takes the first one, and waits
  for ever when there is none. \<open>settrace\<close> records whether \<^verbatim>\<open>sys.settrace\<close>
  currently has the debugger's trace function installed in the thread.
\<close>

record core =
  ui_queue :: "snapshot list"
  cmd_queue :: "string list"
  current_frame :: "frame option"
  frame_returning :: "frame option"
  settrace :: bool

text \<open>
  The attributes \<^verbatim>\<open>botframe\<close>, \<^verbatim>\<open>stopframe\<close>, \<^verbatim>\<open>returnframe\<close>, \<^verbatim>\<open>stoplineno\<close> and
  \<^verbatim>\<open>quitting\<close> do not exist until \<^verbatim>\<open>reset\<close> creates them. A \<open>debugger\<close> is the
  object from then on; the stepping methods and the dispatcher, which read these
  attributes, are defined on it only.
\<close>

record debugger = core +
  botframe :: "frame option"
  stopframe :: "frame option"
  returnframe :: "frame option"
  stoplineno :: int
  quitting :: bool

text \<open>\<^verbatim>\<open>DebuggerCore.__init__\<close> on two fresh queues, as \<^verbatim>\<open>run_debugger\<close> calls it.\<close>

definition DebuggerCore :: "string list \<Rightarrow> core" where
  "DebuggerCore cmds =
     \<lparr> ui_queue = [], cmd_queue = cmds, current_frame = None, frame_returning = None,
       settrace = False \<rparr>"

text \<open>\<^verbatim>\<open>frame is x\<close> where \<open>x\<close> is an attribute holding a frame or \<^verbatim>\<open>None\<close>.\<close>

fun is_frame :: "frame \<Rightarrow> frame option \<Rightarrow> bool" where
  "is_frame f None = False"
| "is_frame f (Some g) = (f_id f = f_id g)"

definition set_stopinfo :: "debugger \<Rightarrow> frame option \<Rightarrow> frame option \<Rightarrow> int \<Rightarrow> debugger" where
  "set_stopinfo s sf rf ln =
     s\<lparr> stopframe := sf, returnframe := rf, quitting := False, stoplineno := ln \<rparr>"

text \<open>
  \<^verbatim>\<open>reset\<close>, called by \<^verbatim>\<open>run\<close> on the object \<^verbatim>\<open>__init__\<close> made: \<^verbatim>\<open>botframe = None\<close>
  and \<^verbatim>\<open>_set_stopinfo(None, None)\<close>.
\<close>

definition reset :: "core \<Rightarrow> debugger" where
  "reset s =
     \<lparr> ui_queue = ui_queue s, cmd_queue = cmd_queue s, current_frame = current_frame s,
       frame_returning = frame_returning s, settrace = settrace s,
       botframe = None, stopframe = None, returnframe = None, stoplineno = 0,
       quitting = False \<rparr>"

text \<open>
  \<^verbatim>\<open>set_step\<close> also restores the trace function of the caller when
  \<^verbatim>\<open>frame_returning\<close> is set; that attribute is set only while \<^verbatim>\<open>user_return\<close>
  runs, which this program does not override, and the per-frame trace function is
  state of the interpreter.
\<close>

definition set_step :: "debugger \<Rightarrow> debugger" where
  "set_step s = set_stopinfo s None None 0"

definition set_next :: "debugger \<Rightarrow> frame \<Rightarrow> debugger" where
  "set_next s frame = set_stopinfo s (Some frame) None 0"

definition set_continue :: "debugger \<Rightarrow> debugger" where
  "set_continue s = (set_stopinfo s (botframe s) None (- 1))\<lparr> settrace := False \<rparr>"

definition set_quit :: "debugger \<Rightarrow> debugger" where
  "set_quit s =
     s\<lparr> stopframe := botframe s, returnframe := None, quitting := True, settrace := False \<rparr>"

definition stop_here :: "debugger \<Rightarrow> frame \<Rightarrow> bool" where
  "stop_here s frame =
     (if is_frame frame (stopframe s)
      then (if stoplineno s = - 1 then False else stoplineno s \<le> f_lineno frame)
      else if stopframe s = None then True
      else False)"

text \<open>With no breakpoints, both breakpoint tests fail at their first check.\<close>

definition break_here :: "debugger \<Rightarrow> frame \<Rightarrow> bool" where
  "break_here s frame = False"

definition break_anywhere :: "debugger \<Rightarrow> frame \<Rightarrow> bool" where
  "break_anywhere s frame = False"

section \<open>The pause protocol of \<^verbatim>\<open>DebuggerCore\<close>\<close>

text \<open>
  \<^verbatim>\<open>_update_ui\<close> builds the state dictionary and puts it on the outward queue. The
  locals are rendered first, so a \<^verbatim>\<open>repr\<close> that raises past \<^verbatim>\<open>_safe_repr_dict\<close>
  leaves \<^verbatim>\<open>_update_ui\<close> before anything is put. \<^verbatim>\<open>str(exception[1])\<close> is the text
  kept in the event.
\<close>

definition make_state :: "frame \<Rightarrow> (string \<times> string) list \<Rightarrow> exc_info option \<Rightarrow> snapshot" where
  "make_state frame ls exception =
     \<lparr> st_filename = co_filename (f_code frame),
       st_lineno = f_lineno frame,
       st_function = co_name (f_code frame),
       st_locals = ls,
       st_stack = get_stack_info frame,
       st_exception = (case exception of None \<Rightarrow> None | Some a \<Rightarrow> Some (exc_str a)) \<rparr>"

definition update_ui :: "debugger \<Rightarrow> frame \<Rightarrow> exc_info option \<Rightarrow> unit signal \<times> debugger" where
  "update_ui s frame exception =
     (case safe_repr_dict (f_locals frame) of
        Inl e \<Rightarrow> (Raise e, s)
      | Inr ls \<Rightarrow> (Ret (), s\<lparr> ui_queue := ui_queue s @ [make_state frame ls exception] \<rparr>))"

definition wait_for_command :: "debugger \<Rightarrow> frame \<Rightarrow> unit signal \<times> debugger" where
  "wait_for_command s frame =
     (case cmd_queue s of
        [] \<Rightarrow> (Block, s)
      | cmd # rest \<Rightarrow>
          (Ret (),
           if cmd = ''step'' then set_step (s\<lparr> cmd_queue := rest \<rparr>)
           else if cmd = ''next'' then set_next (s\<lparr> cmd_queue := rest \<rparr>) frame
           else if cmd = ''continue'' then set_continue (s\<lparr> cmd_queue := rest \<rparr>)
           else if cmd = ''quit'' then set_quit (s\<lparr> cmd_queue := rest \<rparr>)
           else s\<lparr> cmd_queue := rest \<rparr>))"

definition user_line :: "debugger \<Rightarrow> frame \<Rightarrow> unit signal \<times> debugger" where
  "user_line s frame =
     (case update_ui (s\<lparr> current_frame := Some frame \<rparr>) frame None of
        (Ret u, s1) \<Rightarrow> wait_for_command s1 frame
      | (Raise e, s1) \<Rightarrow> (Raise e, s1)
      | (Block, s1) \<Rightarrow> (Block, s1))"

definition user_exception :: "debugger \<Rightarrow> frame \<Rightarrow> exc_info \<Rightarrow> unit signal \<times> debugger" where
  "user_exception s frame exc =
     (case update_ui (s\<lparr> current_frame := Some frame \<rparr>) frame (Some exc) of
        (Ret u, s1) \<Rightarrow> wait_for_command s1 frame
      | (Raise e, s1) \<Rightarrow> (Raise e, s1)
      | (Block, s1) \<Rightarrow> (Block, s1))"

section \<open>Event dispatch\<close>

text \<open>After a user callback returns, \<^verbatim>\<open>if self.quitting: raise BdbQuit\<close>.\<close>

definition after_callback :: "unit signal \<times> debugger \<Rightarrow> retval signal \<times> debugger" where
  "after_callback r =
     (case r of
        (Ret u, s1) \<Rightarrow> if quitting s1 then (Raise BdbQuit, s1) else (Ret Trace_dispatch, s1)
      | (Raise e, s1) \<Rightarrow> (Raise e, s1)
      | (Block, s1) \<Rightarrow> (Block, s1))"

definition dispatch_line :: "debugger \<Rightarrow> frame \<Rightarrow> retval signal \<times> debugger" where
  "dispatch_line s frame =
     (if stop_here s frame \<or> break_here s frame
      then after_callback (user_line s frame)
      else (Ret Trace_dispatch, s))"

text \<open>\<^verbatim>\<open>user_call\<close> and \<^verbatim>\<open>user_return\<close> are the inherited methods, which do nothing.\<close>

definition dispatch_call :: "debugger \<Rightarrow> frame \<Rightarrow> retval signal \<times> debugger" where
  "dispatch_call s frame =
     (if botframe s = None then (Ret Trace_dispatch, s\<lparr> botframe := f_back frame \<rparr>)
      else if \<not> (stop_here s frame \<or> break_anywhere s frame) then (Ret PyNone, s)
      else if stopframe s \<noteq> None \<and> co_generator (f_code frame) then (Ret Trace_dispatch, s)
      else after_callback (Ret (), s))"

definition dispatch_return :: "debugger \<Rightarrow> frame \<Rightarrow> retval signal \<times> debugger" where
  "dispatch_return s frame =
     (if stop_here s frame \<or> is_frame frame (returnframe s)
      then (if stopframe s \<noteq> None \<and> co_generator (f_code frame) then (Ret Trace_dispatch, s)
            else (case after_callback (Ret (), s\<lparr> frame_returning := None \<rparr>) of
                    (Ret t, s1) \<Rightarrow>
                      if is_frame frame (stopframe s1) \<and> stoplineno s1 \<noteq> - 1
                      then (Ret Trace_dispatch, set_stopinfo s1 None None 0)
                      else (Ret Trace_dispatch, s1)
                  | (Raise e, s1) \<Rightarrow> (Raise e, s1)
                  | (Block, s1) \<Rightarrow> (Block, s1)))
      else (Ret Trace_dispatch, s))"

definition dispatch_exception :: "debugger \<Rightarrow> frame \<Rightarrow> exc_info \<Rightarrow> retval signal \<times> debugger" where
  "dispatch_exception s frame arg =
     (if stop_here s frame
      then (if \<not> (co_generator (f_code frame) \<and> exc_type arg = StopIteration
                    \<and> exc_tb_is_None arg)
            then after_callback (user_exception s frame arg)
            else (Ret Trace_dispatch, s))
      else if (case stopframe s of
                 None \<Rightarrow> False
               | Some sf \<Rightarrow>
                   \<not> is_frame frame (Some sf) \<and> co_generator (f_code sf)
                   \<and> (exc_type arg = StopIteration \<or> exc_type arg = GeneratorExit))
      then after_callback (user_exception s frame arg)
      else (Ret Trace_dispatch, s))"

definition trace_dispatch :: "debugger \<Rightarrow> frame \<Rightarrow> event \<Rightarrow> retval signal \<times> debugger" where
  "trace_dispatch s frame event =
     (if quitting s then (Ret PyNone, s)
      else (case event of
              Line \<Rightarrow> dispatch_line s frame
            | Call \<Rightarrow> dispatch_call s frame
            | Return \<Rightarrow> dispatch_return s frame
            | Exception arg \<Rightarrow> dispatch_exception s frame arg
            | C_call \<Rightarrow> (Ret Trace_dispatch, s)
            | C_exception \<Rightarrow> (Ret Trace_dispatch, s)
            | C_return \<Rightarrow> (Ret Trace_dispatch, s)
            | Unknown_event \<Rightarrow> (Ret Trace_dispatch, s)))"

section \<open>Running the target\<close>

text \<open>
  \<^verbatim>\<open>exec(cmd, globals, locals)\<close> under the trace function. The run of the target is
  given by the events that the trace facility hands to \<^verbatim>\<open>trace_dispatch\<close>, in
  order, and by how the top-level code ends: normally (\<open>None\<close>) or with an exception
  that escapes the top-level frame. Which events the interpreter delivers is not
  modelled: the properties below hold for every list of events. \<open>exec_events\<close> is
  the delivery of the events to the trace function, not yet the run of \<^verbatim>\<open>exec\<close>:
  its result \<open>Raise e\<close> says that the trace function has raised \<open>e\<close> at some event.
  Delivery ends there (the interpreter removes a trace function that raises), and
  also when the trace function waits for ever on the command queue.
\<close>

fun exec_events :: "debugger \<Rightarrow> (frame \<times> event) list \<Rightarrow> unit signal \<times> debugger" where
  "exec_events s [] = (Ret (), s)"
| "exec_events s ((frame, event) # es) =
     (case trace_dispatch s frame event of
        (Ret t, s1) \<Rightarrow> exec_events s1 es
      | (Raise e, s1) \<Rightarrow> (Raise e, s1)
      | (Block, s1) \<Rightarrow> (Block, s1))"

text \<open>
  An exception that the trace function raises is raised in the frame being traced,
  and the target may handle it like any other: \<open>reaction e\<close> is how \<^verbatim>\<open>exec\<close> ends
  when the trace function has raised \<open>e\<close>. It is \<open>Some e\<close> when nothing in the target
  catches \<open>e\<close>, \<open>None\<close> when the target catches it and then runs, untraced, to a normal
  end, and \<open>Some e'\<close> when the target catches or replaces it and ends with \<open>e'\<close>.
  \<open>uncaught\<close> is the reaction of a target that has no handler around the traced code.
\<close>

definition uncaught :: "pyexc \<Rightarrow> pyexc option" where
  "uncaught e = Some e"

definition exec_target ::
  "debugger \<Rightarrow> (frame \<times> event) list \<Rightarrow> pyexc option \<Rightarrow> (pyexc \<Rightarrow> pyexc option)
     \<Rightarrow> unit signal \<times> debugger" where
  "exec_target s es ending reaction =
     (case exec_events s es of
        (Ret u, s1) \<Rightarrow> (case ending of None \<Rightarrow> (Ret (), s1) | Some e \<Rightarrow> (Raise e, s1))
      | (Raise e, s1) \<Rightarrow>
          (case reaction e of
             None \<Rightarrow> (Ret (), s1\<lparr> settrace := False \<rparr>)
           | Some e' \<Rightarrow> (Raise e', s1\<lparr> settrace := False \<rparr>))
      | (Block, s1) \<Rightarrow> (Block, s1))"

text \<open>
  \<^verbatim>\<open>Bdb.run\<close>: \<^verbatim>\<open>reset\<close>, install the trace function, \<^verbatim>\<open>exec\<close>; \<^verbatim>\<open>BdbQuit\<close> is
  caught, and the \<^verbatim>\<open>finally\<close> clause sets \<^verbatim>\<open>quitting\<close> and removes the trace
  function.
\<close>

definition run_finally :: "debugger \<Rightarrow> debugger" where
  "run_finally s = s\<lparr> quitting := True, settrace := False \<rparr>"

definition run ::
  "core \<Rightarrow> (frame \<times> event) list \<Rightarrow> pyexc option \<Rightarrow> (pyexc \<Rightarrow> pyexc option)
     \<Rightarrow> unit signal \<times> debugger" where
  "run s es ending reaction =
     (case exec_target ((reset s)\<lparr> settrace := True \<rparr>) es ending reaction of
        (Ret u, s1) \<Rightarrow> (Ret (), run_finally s1)
      | (Raise e, s1) \<Rightarrow>
          (case e of
             BdbQuit \<Rightarrow> (Ret (), run_finally s1)
           | ExceptionInst m \<Rightarrow> (Raise e, run_finally s1)
           | BaseExceptionInst m \<Rightarrow> (Raise e, run_finally s1))
      | (Block, s1) \<Rightarrow> (Block, s1))"

text \<open>\<^verbatim>\<open>str(e)\<close> for the exception \<^verbatim>\<open>run_script\<close> reports.\<close>

fun str_exc :: "pyexc \<Rightarrow> string" where
  "str_exc BdbQuit = []"
| "str_exc (ExceptionInst m) = m"
| "str_exc (BaseExceptionInst m) = m"

definition error_state :: "string \<Rightarrow> pyexc \<Rightarrow> snapshot" where
  "error_state script_path e =
     \<lparr> st_filename = script_path, st_lineno = 0, st_function = ''<module>'',
       st_locals = [], st_stack = [], st_exception = Some (str_exc e) \<rparr>"

text \<open>
  \<^verbatim>\<open>run_script\<close>, the body of the execution thread. \<open>loading\<close> is the outcome of
  opening and compiling the file: \<open>None\<close> when both succeed, or the exception raised.
  The result \<open>Ret\<close> means that the thread function has returned: the execution
  context has terminated. The state returned is the object with the attributes of
  \<^verbatim>\<open>__init__\<close>, which it has whether or not \<^verbatim>\<open>run\<close> was reached.
\<close>

definition run_script ::
  "core \<Rightarrow> string \<Rightarrow> pyexc option \<Rightarrow> (frame \<times> event) list \<Rightarrow> pyexc option
     \<Rightarrow> (pyexc \<Rightarrow> pyexc option) \<Rightarrow> unit signal \<times> core" where
  "run_script s script_path loading es ending reaction =
     (case (case loading of
              Some e \<Rightarrow> (Raise e, s)
            | None \<Rightarrow> (case run s es ending reaction of (r, s1) \<Rightarrow> (r, core.truncate s1))) of
        (Ret u, s1) \<Rightarrow> (Ret (), s1)
      | (Raise e, s1) \<Rightarrow>
          if e = BdbQuit then (Ret (), s1)
          else if is_Exception e
          then (Ret (), s1\<lparr> ui_queue := ui_queue s1 @ [error_state script_path e] \<rparr>)
          else (Raise e, s1)
      | (Block, s1) \<Rightarrow> (Block, s1))"

section \<open>Process entry\<close>



section \<open>Example inputs\<close>

text \<open>
  Concrete frames and locals at which the theorems below are instantiated: the frame
  of \<^verbatim>\<open>Bdb.run\<close>, the module frame of a target script started from it, and a
  chain of nested calls above the module frame.
\<close>

definition ex_code :: code where
  "ex_code = \<lparr> co_filename = ''/tmp/demo/t.py'', co_name = ''<module>'', co_generator = False \<rparr>"

definition ex_run_frame :: frame where
  "ex_run_frame =
     Frame 0 \<lparr> co_filename = ''/usr/lib/python3.11/bdb.py'', co_name = ''run'',
               co_generator = False \<rparr>
       597 [] None"

definition ex_locals :: "(string \<times> pyobj) list" where
  "ex_locals =
     [(''__name__'', Repr_returns ''__main__''),
      (''x'', Repr_returns ''1''),
      (''bad'', Repr_raises (ExceptionInst ''no repr'')),
      (''y'', Repr_returns ''[1, 2]'')]"

definition ex_frame :: frame where
  "ex_frame = Frame 1 ex_code 3 ex_locals (Some ex_run_frame)"

fun ex_nest :: "nat \<Rightarrow> frame" where
  "ex_nest 0 = ex_frame"
| "ex_nest (Suc n) =
     Frame (Suc (Suc n))
       \<lparr> co_filename = ''/tmp/demo/t.py'', co_name = ''rec'', co_generator = False \<rparr>
       7 [] (Some (ex_nest n))"


definition ex_long :: "(string \<times> pyobj) list" where
  "ex_long =
     [(''__file__'', Repr_returns ''t.py''),
      (''big'', Repr_returns (replicate 250 CHR ''a'')),
      (''_one'', Repr_returns ''1'')]"

definition ex_exc :: exc_info where
  "ex_exc = \<lparr> exc_type = OtherException, exc_str = ''boom'', exc_tb_is_None = False \<rparr>"

text \<open>
  The events of a script whose first line raises: the module frame is entered, its
  line is about to run, the exception is raised there, and the frame is left.
\<close>

definition ex_events :: "(frame \<times> event) list" where
  "ex_events =
     [(ex_frame, Call), (ex_frame, Line), (ex_frame, Exception ex_exc), (ex_frame, Return)]"





definition ex_paused :: "string list \<Rightarrow> debugger" where
  "ex_paused cmds =
     (reset (DebuggerCore cmds))\<lparr> botframe := Some ex_run_frame, settrace := True \<rparr>"

definition ex_started :: "string list \<Rightarrow> debugger" where
  "ex_started cmds = (reset (DebuggerCore cmds))\<lparr> settrace := True \<rparr>"




section \<open>Properties of the snapshot builder\<close>

lemma dict_set_fresh: "k \<notin> fst ` set d \<Longrightarrow> dict_set d k v = d @ [(k, v)]"
  by (induction d) auto

lemma safe_repr_loop_Inr:
  "safe_repr_loop acc d = Inr res \<Longrightarrow> distinct (map fst d) \<Longrightarrow> fst ` set acc \<inter> fst ` set d = {}
   \<Longrightarrow> res = acc @ map (\<lambda>(k, v). (k, display v)) (filter (\<lambda>(k, v). \<not> reserved k) d)"
proof (induction acc d rule: safe_repr_loop.induct)
  case (1 result)
  then show ?case by simp
next
  case (2 result k v items)
  have fresh: "k \<notin> fst ` set result" using "2.prems"(3) by auto
  show ?case
  proof (cases "startswith k ''__''")
    case True
    with 2 show ?thesis by (auto simp: reserved_def)
  next
    case nd: False
    show ?thesis
    proof (cases "repr v")
      case (Inr r)
      have d: "dict_set result k (take 100 r) = result @ [(k, take 100 r)]"
        using fresh by (rule dict_set_fresh)
      have "res = (result @ [(k, take 100 r)]) @ map (\<lambda>(k, v). (k, display v)) (filter (\<lambda>(k, v). \<not> reserved k) items)"
        using "2.IH"(3)[OF nd Inr] "2.prems" nd Inr d by auto
      then show ?thesis using nd Inr by (simp add: reserved_def display_def)
    next
      case (Inl e)
      have ex: "is_Exception e" using "2.prems"(1) nd Inl by (auto split: if_splits)
      have d: "dict_set result k ''<error getting repr>'' = result @ [(k, ''<error getting repr>'')]"
        using fresh by (rule dict_set_fresh)
      have "res = (result @ [(k, ''<error getting repr>'')]) @ map (\<lambda>(k, v). (k, display v)) (filter (\<lambda>(k, v). \<not> reserved k) items)"
        using "2.IH"(2)[OF nd Inl ex] "2.prems" nd Inl ex d by auto
      then show ?thesis using nd Inl by (simp add: reserved_def display_def)
    qed
  qed
qed



lemma safe_repr_dict_Inr:
  "safe_repr_dict d = Inr res \<Longrightarrow> distinct (map fst d) \<Longrightarrow>
   res = map (\<lambda>(k, v). (k, display v)) (filter (\<lambda>(k, v). \<not> reserved k) d)"
  using safe_repr_loop_Inr[of "[]" d res] by (simp add: safe_repr_dict_def)


lemma length_display: "length (display v) \<le> 100"
  by (simp add: display_def split: sum.splits)

lemma map_fst_closed:
  "map fst (map (\<lambda>(k, v). (k, display v)) (filter (\<lambda>(k, v). \<not> reserved k) d))
   = filter (\<lambda>k. \<not> reserved k) (map fst d)"
  by (induction d) auto









text \<open>
  Claim C5. For a locals dict (distinct keys, in insertion order), the mapping
  returned by \<^verbatim>\<open>_safe_repr_dict\<close>, which becomes the \<^verbatim>\<open>locals\<close> of the snapshot,
  has no name starting with \<^verbatim>\<open>__\<close>, every display string has at most 100
  characters, and the names are those of the input that do not start with \<^verbatim>\<open>__\<close>,
  in the input's order.
\<close>

theorem safe_repr_dict_names_lengths_order:
  assumes "distinct (map fst d)" and "safe_repr_dict d = Inr result"
  shows "(\<forall>(k, r) \<in> set result. \<not> startswith k ''__'' \<and> length r \<le> 100)
         \<and> map fst result = filter (\<lambda>k. \<not> startswith k ''__'') (map fst d)"
proof -
  have closed: "result = map (\<lambda>(k, v). (k, display v)) (filter (\<lambda>(k, v). \<not> reserved k) d)"
    using safe_repr_dict_Inr[OF assms(2) assms(1)] .
  have "\<not> reserved k \<and> length r \<le> 100" if "(k, r) \<in> set result" for k r
  proof -
    from that obtain v where "(k, v) \<in> set d" "\<not> reserved k" "r = display v"
      unfolding closed by auto
    then show ?thesis using length_display[of v] by simp
  qed
  then have a: "\<forall>(k, r) \<in> set result. \<not> startswith k ''__'' \<and> length r \<le> 100"
    unfolding reserved_def by blast
  have b: "map fst result = filter (\<lambda>k. \<not> startswith k ''__'') (map fst d)"
    using map_fst_closed[of d] unfolding closed reserved_def .
  from a b show ?thesis ..
qed

lemma ex_long_result:
  "safe_repr_dict ex_long = Inr [(''big'', replicate 100 CHR ''a''), (''_one'', ''1'')]"
  by (simp add: safe_repr_dict_def ex_long_def startswith_def)

text \<open>Claim C5 at a dict with a reserved name and a 250-character \<^verbatim>\<open>repr\<close>.\<close>

theorem safe_repr_dict_names_lengths_order_witness:
  "distinct (map fst ex_long)
   \<and> safe_repr_dict ex_long = Inr [(''big'', replicate 100 CHR ''a''), (''_one'', ''1'')]
   \<and> list_all (\<lambda>(k, r). \<not> startswith k ''__'' \<and> length r \<le> 100)
         [(''big'', replicate 100 CHR ''a''), (''_one'', ''1'')]
   \<and> map fst [(''big'', replicate 100 CHR ''a''), (''_one'', ''1'')]
       = filter (\<lambda>k. \<not> startswith k ''__'') (map fst ex_long)"
proof -
  have h1: "distinct (map fst ex_long)" by (simp add: ex_long_def)
  note t = safe_repr_dict_names_lengths_order[OF h1 ex_long_result]
  have l: "list_all (\<lambda>(k, r). \<not> startswith k ''__'' \<and> length r \<le> 100)
         [(''big'', replicate 100 CHR ''a''), (''_one'', ''1'')]"
    using t[THEN conjunct1] unfolding list_all_iff .
  show ?thesis
    by (intro conjI) (rule h1 ex_long_result l t[THEN conjunct2])+
qed

lemma stack_loop_chain:
  "stack_loop acc (Some f) = acc @ map frame_entry (frame_chain f)"
proof (induction f arbitrary: acc rule: frame_chain.induct)
  case (1 i c l ls)
  show ?case by simp
next
  case (2 i c l ls p)
  show ?case by (simp add: "2.IH")
qed

lemma frame_chain_nonempty: "frame_chain f \<noteq> []"
  by (induction f rule: frame_chain.induct) auto

lemma hd_frame_chain: "hd (frame_chain f) = f"
  by (induction f rule: frame_chain.induct) auto

lemma last_frame_chain_root: "f_back (last (frame_chain f)) = None"
  by (induction f rule: frame_chain.induct) (auto simp: frame_chain_nonempty)

lemma frame_chain_linked:
  "Suc i < length (frame_chain f) \<Longrightarrow> f_back (frame_chain f ! i) = Some (frame_chain f ! Suc i)"
proof (induction f arbitrary: i rule: frame_chain.induct)
  case (1 j c l ls)
  then show ?case by simp
next
  case (2 j c l ls p)
  show ?case
  proof (cases i)
    case 0
    then show ?thesis using hd_frame_chain[of p] frame_chain_nonempty[of p]
      by (simp add: hd_conv_nth)
  next
    case (Suc k)
    then show ?thesis using "2.IH"[of k] "2.prems" by simp
  qed
qed

lemma get_stack_info_chain:
  "get_stack_info frame = map frame_entry (take 10 (frame_chain frame))"
  by (simp add: get_stack_info_def stack_loop_chain take_map)

text \<open>
  Claim C6, amended. In every snapshot that \<^verbatim>\<open>_update_ui\<close> puts, the stack is the
  result of \<^verbatim>\<open>_get_stack_info\<close> on the frame: the entries of the first 10 frames of
  the parent chain, or of all of them when the chain has fewer. So it has at most 10
  entries, entry 0 is that of the current frame, and entry \<open>i\<close> holds the name part
  of the file path, the line and the function name of the \<open>i\<close>-th frame of the chain.
  The chain starts at the current frame, follows \<^verbatim>\<open>f_back\<close> and ends at the root.
  The walk itself does not stop at the limit: the loop appends an entry for every
  frame up to the root, and the slice then keeps the first 10.
\<close>

theorem snapshot_stack_bounded_innermost_first:
  assumes "update_ui s frame exception = (Ret (), s')"
  shows "\<exists>snap. ui_queue s' = ui_queue s @ [snap]
           \<and> st_stack snap = get_stack_info frame
           \<and> st_stack snap = map frame_entry (take 10 (frame_chain frame))
           \<and> length (st_stack snap) \<le> 10
           \<and> length (st_stack snap) = min 10 (frame_depth frame)
           \<and> st_stack snap ! 0 =
                \<lparr> se_filename = path_name (co_filename (f_code frame)),
                  se_lineno = f_lineno frame,
                  se_function = co_name (f_code frame) \<rparr>
           \<and> (\<forall>i < length (st_stack snap).
                 st_stack snap ! i =
                   \<lparr> se_filename = path_name (co_filename (f_code (frame_chain frame ! i))),
                     se_lineno = f_lineno (frame_chain frame ! i),
                     se_function = co_name (f_code (frame_chain frame ! i)) \<rparr>)
           \<and> frame_chain frame ! 0 = frame
           \<and> (\<forall>i. Suc i < frame_depth frame \<longrightarrow>
                 f_back (frame_chain frame ! i) = Some (frame_chain frame ! Suc i))
           \<and> f_back (last (frame_chain frame)) = None
           \<and> stack_loop [] (Some frame) = map frame_entry (frame_chain frame)
           \<and> length (stack_loop [] (Some frame)) = frame_depth frame"
proof -
  from assms obtain ls where
    s': "s' = s\<lparr> ui_queue := ui_queue s @ [make_state frame ls exception] \<rparr>"
    by (auto simp: update_ui_def split: sum.splits)
  let ?snap = "make_state frame ls exception"
  have q: "ui_queue s' = ui_queue s @ [?snap]" by (simp add: s')
  have st: "st_stack ?snap = get_stack_info frame" by (simp add: make_state_def)
  have ch: "st_stack ?snap = map frame_entry (take 10 (frame_chain frame))"
    unfolding st by (rule get_stack_info_chain)
  have ne: "frame_chain frame \<noteq> []" by (rule frame_chain_nonempty)
  have c0: "frame_chain frame ! 0 = frame"
    using hd_frame_chain[of frame] ne by (simp add: hd_conv_nth)
  have len: "length (st_stack ?snap) = min 10 (frame_depth frame)"
    unfolding ch by (simp add: frame_depth_def min.commute)
  have le: "length (st_stack ?snap) \<le> 10" unfolding len by simp
  have ei: "st_stack ?snap ! i =
              \<lparr> se_filename = path_name (co_filename (f_code (frame_chain frame ! i))),
                se_lineno = f_lineno (frame_chain frame ! i),
                se_function = co_name (f_code (frame_chain frame ! i)) \<rparr>"
    if "i < length (st_stack ?snap)" for i
    using that unfolding ch by (simp add: frame_entry_def)
  have pos: "0 < length (st_stack ?snap)"
    unfolding ch using ne by simp
  have e0: "st_stack ?snap ! 0 =
              \<lparr> se_filename = path_name (co_filename (f_code frame)),
                se_lineno = f_lineno frame,
                se_function = co_name (f_code frame) \<rparr>"
    using ei[OF pos] c0 by simp
  have lk: "\<forall>i. Suc i < frame_depth frame \<longrightarrow>
              f_back (frame_chain frame ! i) = Some (frame_chain frame ! Suc i)"
    using frame_chain_linked[of _ frame] by (simp add: frame_depth_def)
  have walk: "stack_loop [] (Some frame) = map frame_entry (frame_chain frame)"
    by (simp add: stack_loop_chain)
  have wl: "length (stack_loop [] (Some frame)) = frame_depth frame"
    by (simp add: walk frame_depth_def)
  show ?thesis
    using q st ch le len e0 ei c0 lk last_frame_chain_root[of frame] walk wl by blast
qed

lemma ex_nest_chain_length: "length (frame_chain (ex_nest n)) = n + 2"
  by (induction n) (simp_all add: ex_frame_def ex_run_frame_def)

lemma ex_nest_11:
  "ex_nest 11 =
     Frame 12 \<lparr> co_filename = ''/tmp/demo/t.py'', co_name = ''rec'', co_generator = False \<rparr>
       7 [] (Some (ex_nest 10))"
  by (simp add: eval_nat_numeral)

lemma ex_nest_11_update_ui:
  "update_ui (ex_started []) (ex_nest 11) None
     = (Ret (), (ex_started [])\<lparr> ui_queue := ui_queue (ex_started [])
                                    @ [make_state (ex_nest 11) [] None] \<rparr>)"
  by (simp add: update_ui_def safe_repr_dict_def ex_nest_11)

text \<open>
  The amended C6 at a chain of 13 frames and a debugger with an empty outward queue:
  the one snapshot put has a stack of 10 entries, the first that of the current frame.
\<close>

theorem snapshot_stack_bounded_innermost_first_witness:
  "update_ui (ex_started []) (ex_nest 11) None
     = (Ret (), (ex_started [])\<lparr> ui_queue := ui_queue (ex_started [])
                                    @ [make_state (ex_nest 11) [] None] \<rparr>)
   \<and> ui_queue (ex_started []) = []
   \<and> frame_depth (ex_nest 11) = 13
   \<and> (\<exists>snap. ui_queue ((ex_started [])\<lparr> ui_queue := ui_queue (ex_started [])
                                    @ [make_state (ex_nest 11) [] None] \<rparr>) = [snap]
         \<and> length (st_stack snap) = 10
         \<and> se_function (st_stack snap ! 0) = ''rec''
         \<and> se_filename (st_stack snap ! 0) = ''t.py''
         \<and> se_lineno (st_stack snap ! 0) = 7)"
proof -
  have d: "frame_depth (ex_nest 11) = 13"
    by (simp add: frame_depth_def ex_nest_chain_length)
  have u: "ui_queue (ex_started []) = []"
    by (simp add: ex_started_def reset_def DebuggerCore_def)
  from snapshot_stack_bounded_innermost_first[OF ex_nest_11_update_ui] obtain snap where
    q: "ui_queue ((ex_started [])\<lparr> ui_queue := ui_queue (ex_started [])
                                    @ [make_state (ex_nest 11) [] None] \<rparr>)
          = ui_queue (ex_started []) @ [snap]"
    and l: "length (st_stack snap) = min 10 (frame_depth (ex_nest 11))"
    and e: "st_stack snap ! 0 =
              \<lparr> se_filename = path_name (co_filename (f_code (ex_nest 11))),
                se_lineno = f_lineno (ex_nest 11),
                se_function = co_name (f_code (ex_nest 11)) \<rparr>"
    by blast
  have q': "ui_queue ((ex_started [])\<lparr> ui_queue := ui_queue (ex_started [])
                                    @ [make_state (ex_nest 11) [] None] \<rparr>) = [snap]"
    using q unfolding u by simp
  have l': "length (st_stack snap) = 10" using l d by simp
  have f: "se_function (st_stack snap ! 0) = ''rec''"
    unfolding e by (simp add: ex_nest_11)
  have g: "se_filename (st_stack snap ! 0) = ''t.py''"
    unfolding e by (simp add: ex_nest_11 path_name_def path_parts_def)
  have n: "se_lineno (st_stack snap ! 0) = 7"
    unfolding e by (simp add: ex_nest_11)
  have x: "\<exists>snap. ui_queue ((ex_started [])\<lparr> ui_queue := ui_queue (ex_started [])
                                    @ [make_state (ex_nest 11) [] None] \<rparr>) = [snap]
         \<and> length (st_stack snap) = 10
         \<and> se_function (st_stack snap ! 0) = ''rec''
         \<and> se_filename (st_stack snap ! 0) = ''t.py''
         \<and> se_lineno (st_stack snap ! 0) = 7"
    using q' l' f g n by blast
  show ?thesis by (intro conjI) (rule ex_nest_11_update_ui u d x)+
qed

text \<open>
  Claim C6 as stated fails on its last clause: the walk does not stop at the depth
  limit. On a chain of 13 frames the loop of \<^verbatim>\<open>_get_stack_info\<close> appends 13 entries,
  one for every frame up to the root; only the slice \<^verbatim>\<open>stack[:10]\<close> brings the
  returned list to 10.
\<close>

theorem stack_walk_passes_limit_counterexample:
  "frame_depth (ex_nest 11) = 13
   \<and> length (stack_loop [] (Some (ex_nest 11))) = 13
   \<and> length (get_stack_info (ex_nest 11)) = 10"
proof -
  have d: "frame_depth (ex_nest 11) = 13"
    by (simp add: frame_depth_def ex_nest_chain_length)
  have w: "length (stack_loop [] (Some (ex_nest 11))) = 13"
    by (simp add: stack_loop_chain ex_nest_chain_length)
  have g: "length (get_stack_info (ex_nest 11)) = 10"
    by (simp add: get_stack_info_chain ex_nest_chain_length)
  show ?thesis by (intro conjI) (rule d w g)+
qed

section \<open>Properties of the pause protocol\<close>

lemma run_finally_settrace: "run_finally (s\<lparr> settrace := False \<rparr>) = run_finally s"
  by (simp add: run_finally_def)

lemma truncate_queues:
  "ui_queue (core.truncate s) = ui_queue s" "cmd_queue (core.truncate s) = cmd_queue s"
  by (simp_all add: core.truncate_def)

lemma run_finally_queues:
  "ui_queue (run_finally s) = ui_queue s" "cmd_queue (run_finally s) = cmd_queue s"
  by (simp_all add: run_finally_def)


lemma set_queues [simp]:
  "ui_queue (set_stopinfo s a b c) = ui_queue s"
  "cmd_queue (set_stopinfo s a b c) = cmd_queue s"
  "ui_queue (set_step s) = ui_queue s" "cmd_queue (set_step s) = cmd_queue s"
  "ui_queue (set_next s f) = ui_queue s" "cmd_queue (set_next s f) = cmd_queue s"
  "ui_queue (set_continue s) = ui_queue s" "cmd_queue (set_continue s) = cmd_queue s"
  "ui_queue (set_quit s) = ui_queue s" "cmd_queue (set_quit s) = cmd_queue s"
  by (simp_all add: set_stopinfo_def set_step_def set_next_def set_continue_def set_quit_def)















lemma ex_frame_sel:
  "f_id ex_frame = 1" "f_lineno ex_frame = 3" "f_code ex_frame = ex_code"
  "f_back ex_frame = Some ex_run_frame"
  by (simp_all add: ex_frame_def)

lemma ex_frame_builds:
  "safe_repr_dict (f_locals ex_frame)
     = Inr [(''x'', ''1''), (''bad'', ''<error getting repr>''), (''y'', ''[1, 2]'')]"
  by (simp add: safe_repr_dict_def ex_frame_def ex_locals_def startswith_def)


lemmas dispatch_defs =
  trace_dispatch_def dispatch_line_def dispatch_call_def dispatch_return_def
  dispatch_exception_def after_callback_def stop_here_def break_here_def break_anywhere_def
  user_line_def user_exception_def update_ui_def wait_for_command_def
  set_step_def set_next_def set_continue_def set_quit_def set_stopinfo_def




text \<open>
  Claim C10. Whatever string is first on the command queue, \<^verbatim>\<open>_wait_for_command\<close>
  returns without raising and takes exactly that one item. If the string is none of
  \<^verbatim>\<open>step\<close>, \<^verbatim>\<open>next\<close>, \<^verbatim>\<open>continue\<close>, \<^verbatim>\<open>quit\<close>, nothing else changes: the stop
  conditions are the ones that were active before.
\<close>

theorem wait_for_command_consumes_one:
  assumes "cmd_queue s = cmd # rest"
  shows "\<exists>s'. wait_for_command s frame = (Ret (), s')
           \<and> cmd_queue s' = rest \<and> ui_queue s' = ui_queue s
           \<and> (cmd \<noteq> ''step'' \<and> cmd \<noteq> ''next'' \<and> cmd \<noteq> ''continue'' \<and> cmd \<noteq> ''quit'' \<longrightarrow>
                s' = s\<lparr> cmd_queue := rest \<rparr>
                \<and> stopframe s' = stopframe s \<and> returnframe s' = returnframe s
                \<and> stoplineno s' = stoplineno s \<and> quitting s' = quitting s
                \<and> (\<forall>g. stop_here s' g = stop_here s g))"
  using assms by (simp add: wait_for_command_def stop_here_def)

text \<open>Claim C10 at the unrecognised command \<^verbatim>\<open>jump\<close>.\<close>

theorem wait_for_command_consumes_one_witness:
  "cmd_queue (ex_paused [''jump'', ''step'']) = ''jump'' # [''step'']
   \<and> ''jump'' \<noteq> ''step'' \<and> ''jump'' \<noteq> ''next'' \<and> ''jump'' \<noteq> ''continue'' \<and> ''jump'' \<noteq> ''quit''
   \<and> wait_for_command (ex_paused [''jump'', ''step'']) ex_frame
       = (Ret (), (ex_paused [''jump'', ''step''])\<lparr> cmd_queue := [''step''] \<rparr>)"
proof -
  have h: "cmd_queue (ex_paused [''jump'', ''step'']) = ''jump'' # [''step'']"
    by (simp add: ex_paused_def reset_def DebuggerCore_def)
  have n: "''jump'' \<noteq> ''step'' \<and> ''jump'' \<noteq> ''next'' \<and> ''jump'' \<noteq> ''continue'' \<and> ''jump'' \<noteq> ''quit''"
    by simp
  from wait_for_command_consumes_one[OF h, of ex_frame] n
  have "wait_for_command (ex_paused [''jump'', ''step'']) ex_frame
       = (Ret (), (ex_paused [''jump'', ''step''])\<lparr> cmd_queue := [''step''] \<rparr>)"
    by blast
  with h n show ?thesis by blast
qed

section \<open>Properties of stepping, quitting and the end of the run\<close>

lemma exec_events_append:
  "exec_events s (xs @ ys) =
     (case exec_events s xs of
        (Ret u, s1) \<Rightarrow> exec_events s1 ys
      | (Raise e, s1) \<Rightarrow> (Raise e, s1)
      | (Block, s1) \<Rightarrow> (Block, s1))"
proof (induction xs arbitrary: s)
  case Nil
  show ?case by simp
next
  case (Cons x xs)
  obtain f ev where x: "x = (f, ev)" by (cases x)
  show ?case
    by (cases "trace_dispatch s f ev" rule: prod.exhaust; cases "fst (trace_dispatch s f ev)")
       (auto simp: x Cons.IH)
qed

text \<open>The example paused debugger is what \<^verbatim>\<open>run\<close> reaches once the module frame is entered.\<close>

lemma ex_paused_reached:
  "exec_events (ex_started cmds) [(ex_frame, Call)] = (Ret (), ex_paused cmds)"
  by (simp add: ex_started_def ex_paused_def reset_def DebuggerCore_def dispatch_defs ex_frame_sel)

lemma ex_started_call:
  "exec_events (ex_started cmds) [(ex_frame, Call)]
     = (Ret (), (ex_started cmds)\<lparr> botframe := Some ex_run_frame \<rparr>)"
  by (simp add: ex_started_def reset_def DebuggerCore_def dispatch_defs ex_frame_sel)

subsection \<open>Step over\<close>








subsection \<open>Continue\<close>

text \<open>After \<^verbatim>\<open>continue\<close> no frame stops.\<close>

lemma continue_mode_inert:
  assumes "stopframe s = Some b" "stoplineno s = - 1" "returnframe s = None"
      "\<not> co_generator (f_code b)" "botframe s = Some b"
  shows "\<exists>t. trace_dispatch s f ev = (Ret t, s)"
proof -
  have sh: "\<not> stop_here s f" using assms by (simp add: stop_here_def)
  show ?thesis
  proof (cases ev)
    case (Exception a)
    then show ?thesis using assms sh
      by (simp add: trace_dispatch_def dispatch_exception_def)
  qed (use assms sh in \<open>simp_all add: trace_dispatch_def dispatch_line_def dispatch_call_def
          dispatch_return_def break_here_def break_anywhere_def\<close>)
qed

lemma continue_mode_events:
  assumes "stopframe s = Some b" "stoplineno s = - 1" "returnframe s = None"
      "\<not> co_generator (f_code b)" "botframe s = Some b"
  shows "exec_events s es = (Ret (), s)"
proof (induction es)
  case Nil
  show ?case by simp
next
  case (Cons x es)
  obtain f ev where x: "x = (f, ev)" by (cases x)
  from continue_mode_inert[OF assms, of f ev] obtain t where "trace_dispatch s f ev = (Ret t, s)" ..
  then show ?case using Cons.IH by (simp add: x)
qed

text \<open>
  Claim C3, amended. Let \<^verbatim>\<open>continue\<close> be the command received while paused, in a
  debugger started by \<^verbatim>\<open>run\<close> (so that \<^verbatim>\<open>botframe\<close> is the frame of \<^verbatim>\<open>run\<close>, an
  ordinary function). Then no later trace event pauses: for every sequence of line,
  call, return and exception events, no snapshot is put and no command is taken.
  There is no pause at a later exception either.
\<close>

theorem continue_no_further_pause:
  assumes "cmd_queue s = ''continue'' # rest"
      and "botframe s = Some b"
      and "\<not> co_generator (f_code b)"
  shows "\<exists>s1. wait_for_command s frame = (Ret (), s1)
           \<and> ui_queue s1 = ui_queue s \<and> cmd_queue s1 = rest \<and> \<not> quitting s1
           \<and> (\<forall>es. exec_events s1 es = (Ret (), s1))"
proof -
  let ?s1 = "set_continue (s\<lparr> cmd_queue := rest \<rparr>)"
  have w: "wait_for_command s frame = (Ret (), ?s1)"
    using assms(1) by (simp add: wait_for_command_def)
  have m: "stopframe ?s1 = Some b" "stoplineno ?s1 = - 1" "returnframe ?s1 = None"
    "botframe ?s1 = Some b" "\<not> quitting ?s1" "ui_queue ?s1 = ui_queue s" "cmd_queue ?s1 = rest"
    using assms(2) by (simp_all add: set_continue_def set_stopinfo_def)
  have "\<forall>es. exec_events ?s1 es = (Ret (), ?s1)"
    using continue_mode_events[OF m(1,2,3) assms(3) m(4)] by blast
  then show ?thesis using w m by blast
qed

text \<open>The amended C3 at the example frame and events.\<close>

theorem continue_no_further_pause_witness:
  "cmd_queue (ex_paused [''continue'', ''step'']) = ''continue'' # [''step'']
   \<and> botframe (ex_paused [''continue'', ''step'']) = Some ex_run_frame
   \<and> \<not> co_generator (f_code ex_run_frame)
   \<and> (\<exists>s1. wait_for_command (ex_paused [''continue'', ''step'']) ex_frame = (Ret (), s1)
         \<and> ui_queue s1 = [] \<and> cmd_queue s1 = [''step'']
         \<and> exec_events s1 ex_events = (Ret (), s1))"
proof -
  have h1: "cmd_queue (ex_paused [''continue'', ''step'']) = ''continue'' # [''step'']"
    by (simp add: ex_paused_def reset_def DebuggerCore_def)
  have h2: "botframe (ex_paused [''continue'', ''step'']) = Some ex_run_frame"
    by (simp add: ex_paused_def reset_def DebuggerCore_def)
  have h3: "\<not> co_generator (f_code ex_run_frame)"
    by (simp add: ex_run_frame_def)
  have u: "ui_queue (ex_paused [''continue'', ''step'']) = []"
    by (simp add: ex_paused_def reset_def DebuggerCore_def)
  from continue_no_further_pause[OF h1 h2 h3, of ex_frame] u
  have c: "\<exists>s1. wait_for_command (ex_paused [''continue'', ''step'']) ex_frame = (Ret (), s1)
         \<and> ui_queue s1 = [] \<and> cmd_queue s1 = [''step'']
         \<and> exec_events s1 ex_events = (Ret (), s1)"
    by auto
  show ?thesis by (intro conjI) (rule h1 h2 h3 c)+
qed

text \<open>
  Claim C3 as stated fails: after \<^verbatim>\<open>continue\<close> an exception raised in the target
  causes no pause. \<^verbatim>\<open>set_continue\<close> makes \<^verbatim>\<open>stop_here\<close> false for every frame, so
  \<^verbatim>\<open>dispatch_exception\<close> does not call \<^verbatim>\<open>user_exception\<close> (and with no breakpoints
  \<^verbatim>\<open>set_continue\<close> also removes the trace function). On the example script, whose
  first line raises, with \<^verbatim>\<open>continue\<close> at the first pause: the only snapshot of the
  pauses is that of the line, the second command is never taken, and the exception
  shows only in the final snapshot of \<^verbatim>\<open>run_script\<close>, the one with line 0.
\<close>

theorem continue_exception_counterexample:
  "fst (exec_events (ex_started [''continue'', ''step'']) ex_events) = Ret ()
   \<and> map st_exception (ui_queue (snd (exec_events (ex_started [''continue'', ''step''])
          ex_events))) = [None]
   \<and> cmd_queue (snd (exec_events (ex_started [''continue'', ''step'']) ex_events)) = [''step'']
   \<and> map st_lineno (ui_queue (snd (run_script (DebuggerCore [''continue'', ''step''])
          ''/tmp/demo/t.py'' None ex_events (Some (ExceptionInst ''boom'')) uncaught))) = [3, 0]"
proof -
  let ?X = "exec_events (ex_started [''continue'', ''step'']) ex_events"
  have e: "fst ?X = Ret ()" "map st_exception (ui_queue (snd ?X)) = [None]"
    "cmd_queue (snd ?X) = [''step'']" "map st_lineno (ui_queue (snd ?X)) = [3]"
    by (simp_all add: ex_events_def ex_started_def reset_def DebuggerCore_def dispatch_defs
          ex_frame_sel ex_frame_builds ex_code_def ex_exc_def ex_run_frame_def make_state_def)
  have x: "exec_events ((reset (DebuggerCore [''continue'', ''step'']))\<lparr> settrace := True \<rparr>)
             ex_events = (Ret (), snd ?X)"
    using e(1) by (simp add: ex_started_def prod_eq_iff)
  have r: "map st_lineno (ui_queue (snd (run_script (DebuggerCore [''continue'', ''step''])
          ''/tmp/demo/t.py'' None ex_events (Some (ExceptionInst ''boom'')) uncaught))) = [3, 0]"
    by (simp add: run_script_def run_def exec_target_def run_finally_def core.truncate_def x e(4)
          error_state_def)
  show ?thesis by (intro conjI) (rule e(1) e(2) e(3) r)+
qed

subsection \<open>Quit\<close>

lemma pause_quit:
  assumes q: "cmd_queue s = ''quit'' # rest"
    and p: "(case update_ui (s\<lparr> current_frame := Some f \<rparr>) f x of
              (Ret u, s1) \<Rightarrow> wait_for_command s1 f
            | (Raise e, s1) \<Rightarrow> (Raise e, s1)
            | (Block, s1) \<Rightarrow> (Block, s1)) = (r, s')"
  shows "(r = Ret () \<and> quitting s' \<and> (\<exists>snap. ui_queue s' = ui_queue s @ [snap])
            \<and> cmd_queue s' = rest)
       \<or> ((\<exists>e. r = Raise e) \<and> ui_queue s' = ui_queue s)"
proof (cases "safe_repr_dict (f_locals f)")
  case (Inl e)
  then show ?thesis using p by (auto simp: update_ui_def)
next
  case (Inr ls)
  then show ?thesis using p q
    by (auto simp: update_ui_def wait_for_command_def set_quit_def)
qed

lemma after_pause_quit:
  assumes "(r1 = Ret () \<and> quitting s1 \<and> (\<exists>snap. ui_queue s1 = ui_queue s @ [snap])
            \<and> cmd_queue s1 = rest)
       \<or> ((\<exists>e. r1 = Raise e) \<and> ui_queue s1 = ui_queue s)"
    and "after_callback (r1, s1) = (r, s')" and "ui_queue s' \<noteq> ui_queue s"
  shows "r = Raise BdbQuit \<and> (\<exists>snap. ui_queue s' = ui_queue s @ [snap]) \<and> cmd_queue s' = rest
         \<and> quitting s'"
  using assms by (auto simp: after_callback_def)

lemma trace_dispatch_quit:
  assumes q: "cmd_queue s = ''quit'' # rest"
    and t: "trace_dispatch s f ev = (r, s')"
    and c: "ui_queue s' \<noteq> ui_queue s"
  shows "r = Raise BdbQuit \<and> (\<exists>snap. ui_queue s' = ui_queue s @ [snap]) \<and> cmd_queue s' = rest
         \<and> quitting s'"
proof (cases "quitting s")
  case True
  then show ?thesis using t c by (auto simp: trace_dispatch_def)
next
  case nq: False
  show ?thesis
  proof (cases ev)
    case Line
    show ?thesis
    proof (cases "stop_here s f \<or> break_here s f")
      case True
      obtain r1 s1 where u: "user_line s f = (r1, s1)" by (cases "user_line s f")
      have a: "after_callback (r1, s1) = (r, s')"
        using t nq Line True u by (simp add: trace_dispatch_def dispatch_line_def)
      from after_pause_quit[OF pause_quit[OF q u[unfolded user_line_def]] a c] show ?thesis .
    next
      case False
      then show ?thesis using t c nq Line by (auto simp: trace_dispatch_def dispatch_line_def)
    qed
  next
    case Call
    then show ?thesis using t c nq
      by (auto simp: trace_dispatch_def dispatch_call_def after_callback_def split: if_splits)
  next
    case Return
    then show ?thesis using t c nq
      by (auto simp: trace_dispatch_def dispatch_return_def after_callback_def set_stopinfo_def
               split: if_splits)
  next
    case (Exception a)
    show ?thesis
    proof (cases "dispatch_exception s f a = after_callback (user_exception s f a)")
      case True
      obtain r1 s1 where u: "user_exception s f a = (r1, s1)" by (cases "user_exception s f a")
      have a: "after_callback (r1, s1) = (r, s')"
        using t nq Exception True u by (simp add: trace_dispatch_def)
      from after_pause_quit[OF pause_quit[OF q u[unfolded user_exception_def]] a c]
      show ?thesis .
    next
      case False
      then have "dispatch_exception s f a = (Ret Trace_dispatch, s)"
        by (auto simp: dispatch_exception_def split: if_splits)
      then show ?thesis using t c nq Exception by (auto simp: trace_dispatch_def)
    qed
  qed (use t c nq in \<open>auto simp: trace_dispatch_def\<close>)
qed

lemma quitting_events: "quitting s \<Longrightarrow> exec_events s es = (Ret (), s)"
  by (induction es) (auto simp: trace_dispatch_def)

text \<open>
  Claim C8, amended. The target has run under the debugger up to a state where
  \<^verbatim>\<open>quit\<close> is the next command, and the next event is a pause (it puts a snapshot).
  Then the dispatcher raises \<^verbatim>\<open>BdbQuit\<close> in the target frame after that one
  snapshot, no later event is dispatched, and with \<^verbatim>\<open>quitting\<close> set the dispatcher
  ignores any event: the debugger causes no further pause. What follows depends on
  the target. If it lets \<^verbatim>\<open>BdbQuit\<close> propagate, or catches it and ends normally,
  \<^verbatim>\<open>Bdb.run\<close> and \<^verbatim>\<open>run_script\<close> return with the outward queue ending at the
  snapshot of the pause: no further snapshot, no error. If the target catches
  \<^verbatim>\<open>BdbQuit\<close> and ends with another exception, \<^verbatim>\<open>run_script\<close> treats that one as
  any escaping exception: an error snapshot for an \<^verbatim>\<open>Exception\<close>, a raise otherwise.
\<close>

theorem quit_raises_BdbQuit_and_ends_debugging:
  assumes "exec_events ((reset s0)\<lparr> settrace := True \<rparr>) pre = (Ret (), s)"
      and "cmd_queue s = ''quit'' # rest"
      and "trace_dispatch s frame ev = (r, s')"
      and "ui_queue s' \<noteq> ui_queue s"
  shows "r = Raise BdbQuit
         \<and> (\<exists>snap. ui_queue s' = ui_queue s @ [snap]) \<and> cmd_queue s' = rest \<and> quitting s'
         \<and> exec_events ((reset s0)\<lparr> settrace := True \<rparr>) (pre @ (frame, ev) # post)
             = (Raise BdbQuit, s')
         \<and> (\<forall>es. exec_events s' es = (Ret (), s'))
         \<and> (reaction BdbQuit = Some BdbQuit \<or> reaction BdbQuit = None \<longrightarrow>
               run s0 (pre @ (frame, ev) # post) ending reaction = (Ret (), run_finally s')
               \<and> run_script s0 script_path None (pre @ (frame, ev) # post) ending reaction
                   = (Ret (), core.truncate (run_finally s'))
               \<and> ui_queue (core.truncate (run_finally s')) = ui_queue s'
               \<and> cmd_queue (core.truncate (run_finally s')) = rest)
         \<and> (\<forall>e. reaction BdbQuit = Some e \<and> e \<noteq> BdbQuit \<and> is_Exception e \<longrightarrow>
               run_script s0 script_path None (pre @ (frame, ev) # post) ending reaction
                 = (Ret (), (core.truncate (run_finally s'))
                              \<lparr> ui_queue := ui_queue s' @ [error_state script_path e] \<rparr>))
         \<and> (\<forall>e. reaction BdbQuit = Some e \<and> \<not> is_Exception e \<longrightarrow>
               run_script s0 script_path None (pre @ (frame, ev) # post) ending reaction
                 = (Raise e, core.truncate (run_finally s')))"
proof -
  let ?es = "pre @ (frame, ev) # post"
  note d = trace_dispatch_quit[OF assms(2,3,4)]
  then have r: "r = Raise BdbQuit" by blast
  have e: "exec_events ((reset s0)\<lparr> settrace := True \<rparr>) ?es = (Raise BdbQuit, s')"
    using assms(1,3) r by (simp add: exec_events_append)
  have q: "\<forall>es. exec_events s' es = (Ret (), s')"
    using d quitting_events by blast
  have x: "exec_target ((reset s0)\<lparr> settrace := True \<rparr>) ?es ending reaction
             = (case reaction BdbQuit of
                  None \<Rightarrow> (Ret (), s'\<lparr> settrace := False \<rparr>)
                | Some e' \<Rightarrow> (Raise e', s'\<lparr> settrace := False \<rparr>))"
    by (simp add: exec_target_def e)
  have a: "run s0 ?es ending reaction = (Ret (), run_finally s')
           \<and> run_script s0 script_path None ?es ending reaction
               = (Ret (), core.truncate (run_finally s'))
           \<and> ui_queue (core.truncate (run_finally s')) = ui_queue s'
           \<and> cmd_queue (core.truncate (run_finally s')) = rest"
    if "reaction BdbQuit = Some BdbQuit \<or> reaction BdbQuit = None"
  proof -
    have rn: "run s0 ?es ending reaction = (Ret (), run_finally s')"
      using that by (auto simp: run_def x run_finally_settrace)
    have rs: "run_script s0 script_path None ?es ending reaction
               = (Ret (), core.truncate (run_finally s'))"
      by (simp add: run_script_def rn)
    show ?thesis using rn rs d by (simp add: truncate_queues run_finally_queues)
  qed
  have b: "run_script s0 script_path None ?es ending reaction
             = (Ret (), (core.truncate (run_finally s'))
                          \<lparr> ui_queue := ui_queue s' @ [error_state script_path e] \<rparr>)"
    if "reaction BdbQuit = Some e \<and> e \<noteq> BdbQuit \<and> is_Exception e" for e
  proof -
    have rn: "run s0 ?es ending reaction = (Raise e, run_finally s')"
      using that by (cases e) (simp_all add: run_def x run_finally_settrace)
    show ?thesis using that
      by (simp add: run_script_def rn truncate_queues run_finally_queues)
  qed
  have c: "run_script s0 script_path None ?es ending reaction
             = (Raise e, core.truncate (run_finally s'))"
    if "reaction BdbQuit = Some e \<and> \<not> is_Exception e" for e
  proof -
    have ne: "e \<noteq> BdbQuit" using that by auto
    have rn: "run s0 ?es ending reaction = (Raise e, run_finally s')"
      using that ne by (cases e) (simp_all add: run_def x run_finally_settrace)
    show ?thesis using that ne by (simp add: run_script_def rn)
  qed
  show ?thesis using d e q a b c by blast
qed

lemma ex_started_line_quit:
  "fst (trace_dispatch ((ex_started [''quit'', ''step''])\<lparr> botframe := Some ex_run_frame \<rparr>)
         ex_frame Line) = Raise BdbQuit"
  "map st_exception (ui_queue (snd (trace_dispatch
         ((ex_started [''quit'', ''step''])\<lparr> botframe := Some ex_run_frame \<rparr>) ex_frame Line)))
     = [None]"
  by (simp_all add: ex_started_def reset_def DebuggerCore_def dispatch_defs ex_frame_sel
        ex_frame_builds make_state_def)

text \<open>
  The amended C8 on the example script, whose first line would raise: \<^verbatim>\<open>quit\<close> at
  the first pause, in a target that does not catch \<^verbatim>\<open>BdbQuit\<close>.
\<close>

theorem quit_raises_BdbQuit_and_ends_debugging_witness:
  "exec_events ((reset (DebuggerCore [''quit'', ''step'']))\<lparr> settrace := True \<rparr>) [(ex_frame, Call)]
     = (Ret (), (ex_started [''quit'', ''step''])\<lparr> botframe := Some ex_run_frame \<rparr>)
   \<and> cmd_queue ((ex_started [''quit'', ''step''])\<lparr> botframe := Some ex_run_frame \<rparr>)
       = ''quit'' # [''step'']
   \<and> ui_queue (snd (trace_dispatch
         ((ex_started [''quit'', ''step''])\<lparr> botframe := Some ex_run_frame \<rparr>) ex_frame Line))
       \<noteq> ui_queue ((ex_started [''quit'', ''step''])\<lparr> botframe := Some ex_run_frame \<rparr>)
   \<and> uncaught BdbQuit = Some BdbQuit
   \<and> fst (run_script (DebuggerCore [''quit'', ''step'']) ''/tmp/demo/t.py'' None ex_events
             (Some (ExceptionInst ''boom'')) uncaught) = Ret ()
   \<and> map st_exception (ui_queue (snd (run_script (DebuggerCore [''quit'', ''step''])
             ''/tmp/demo/t.py'' None ex_events (Some (ExceptionInst ''boom'')) uncaught)))
       = [None]
   \<and> cmd_queue (snd (run_script (DebuggerCore [''quit'', ''step'']) ''/tmp/demo/t.py'' None
             ex_events (Some (ExceptionInst ''boom'')) uncaught)) = [''step'']"
proof -
  let ?S = "(ex_started [''quit'', ''step''])\<lparr> botframe := Some ex_run_frame \<rparr>"
  let ?T = "trace_dispatch ?S ex_frame Line"
  have h1: "exec_events ((reset (DebuggerCore [''quit'', ''step'']))\<lparr> settrace := True \<rparr>)
              [(ex_frame, Call)] = (Ret (), ?S)"
    using ex_started_call[of "[''quit'', ''step'']"] by (simp add: ex_started_def)
  have h2: "cmd_queue ?S = ''quit'' # [''step'']"
    by (simp add: ex_started_def reset_def DebuggerCore_def)
  have h3: "?T = (fst ?T, snd ?T)" by simp
  have u: "ui_queue ?S = []"
    by (simp add: ex_started_def reset_def DebuggerCore_def)
  have h4: "ui_queue (snd ?T) \<noteq> ui_queue ?S"
    using ex_started_line_quit(2) u by auto
  have h5: "uncaught BdbQuit = Some BdbQuit" by (simp add: uncaught_def)
  have ev: "ex_events = [(ex_frame, Call)] @ (ex_frame, Line)
              # [(ex_frame, Exception ex_exc), (ex_frame, Return)]"
    by (simp add: ex_events_def)
  note t = quit_raises_BdbQuit_and_ends_debugging[OF h1 h2 h3 h4,
      of "[(ex_frame, Exception ex_exc), (ex_frame, Return)]" uncaught
         "Some (ExceptionInst ''boom'')" "''/tmp/demo/t.py''", folded ev]
  have rs: "run_script (DebuggerCore [''quit'', ''step'']) ''/tmp/demo/t.py'' None ex_events
             (Some (ExceptionInst ''boom'')) uncaught
             = (Ret (), core.truncate (run_finally (snd ?T)))"
    using t h5 by blast
  have q: "ui_queue (core.truncate (run_finally (snd ?T))) = ui_queue (snd ?T)"
      "cmd_queue (core.truncate (run_finally (snd ?T))) = [''step'']"
    using t h5 by blast+
  have c1: "fst (run_script (DebuggerCore [''quit'', ''step'']) ''/tmp/demo/t.py'' None ex_events
             (Some (ExceptionInst ''boom'')) uncaught) = Ret ()"
    by (simp add: rs)
  have c2: "map st_exception (ui_queue (snd (run_script (DebuggerCore [''quit'', ''step''])
             ''/tmp/demo/t.py'' None ex_events (Some (ExceptionInst ''boom'')) uncaught)))
             = [None]"
    by (simp add: rs q ex_started_line_quit(2))
  have c3: "cmd_queue (snd (run_script (DebuggerCore [''quit'', ''step'']) ''/tmp/demo/t.py'' None
             ex_events (Some (ExceptionInst ''boom'')) uncaught)) = [''step'']"
    by (simp add: rs q)
  show ?thesis by (intro conjI) (rule h1 h2 h4 h5 c1 c2 c3)+
qed

text \<open>
  Claim C8 as stated fails when the target catches the quit. \<^verbatim>\<open>BdbQuit\<close> is an
  \<^verbatim>\<open>Exception\<close> raised in the frame being traced, so a target paused inside
  \<^verbatim>\<open>try: ... except Exception: pass\<close> swallows it and runs on, untraced. Below it then
  fails with another exception (text \<^verbatim>\<open>late\<close>), which reaches the \<^verbatim>\<open>except Exception\<close>
  clause of \<^verbatim>\<open>run_script\<close>: after the snapshot of the pause a further snapshot is
  put, and it reports an error.
\<close>

theorem quit_caught_by_target_counterexample:
  "fst (trace_dispatch ((ex_started [''quit''])\<lparr> botframe := Some ex_run_frame \<rparr>)
          ex_frame Line) = Raise BdbQuit
   \<and> fst (run_script (DebuggerCore [''quit'']) ''/tmp/demo/t.py'' None
            [(ex_frame, Call), (ex_frame, Line)] None
            (\<lambda>e. Some (ExceptionInst ''late''))) = Ret ()
   \<and> map st_exception (ui_queue (snd (run_script (DebuggerCore [''quit'']) ''/tmp/demo/t.py''
            None [(ex_frame, Call), (ex_frame, Line)] None
            (\<lambda>e. Some (ExceptionInst ''late''))))) = [None, Some ''late'']
   \<and> map st_lineno (ui_queue (snd (run_script (DebuggerCore [''quit'']) ''/tmp/demo/t.py''
            None [(ex_frame, Call), (ex_frame, Line)] None
            (\<lambda>e. Some (ExceptionInst ''late''))))) = [3, 0]"
proof -
  let ?S = "(ex_started [''quit''])\<lparr> botframe := Some ex_run_frame \<rparr>"
  let ?T = "trace_dispatch ?S ex_frame Line"
  have t: "fst ?T = Raise BdbQuit" "map st_exception (ui_queue (snd ?T)) = [None]"
    "map st_lineno (ui_queue (snd ?T)) = [3]"
    by (simp_all add: ex_started_def reset_def DebuggerCore_def dispatch_defs ex_frame_sel
          ex_frame_builds make_state_def)
  have e: "exec_events ((reset (DebuggerCore [''quit'']))\<lparr> settrace := True \<rparr>)
             [(ex_frame, Call), (ex_frame, Line)] = (Raise BdbQuit, snd ?T)"
  proof -
    obtain r s1 where T: "?T = (r, s1)" by (cases ?T)
    then have r: "r = Raise BdbQuit" using t(1) by simp
    have app: "[(ex_frame, Call), (ex_frame, Line)] = [(ex_frame, Call)] @ [(ex_frame, Line)]"
      by simp
    have "exec_events (ex_started [''quit'']) [(ex_frame, Call), (ex_frame, Line)]
            = (Raise BdbQuit, snd ?T)"
      unfolding app exec_events_append ex_started_call by (simp add: T r)
    then show ?thesis by (simp only: ex_started_def)
  qed
  have r: "run_script (DebuggerCore [''quit'']) ''/tmp/demo/t.py'' None
            [(ex_frame, Call), (ex_frame, Line)] None (\<lambda>e. Some (ExceptionInst ''late''))
           = (Ret (), (core.truncate (run_finally ((snd ?T)\<lparr> settrace := False \<rparr>)))
                \<lparr> ui_queue := ui_queue (snd ?T)
                     @ [error_state ''/tmp/demo/t.py'' (ExceptionInst ''late'')] \<rparr>)"
    by (simp only: run_script_def run_def exec_target_def e)
       (simp add: truncate_queues run_finally_queues)
  have c1: "fst (run_script (DebuggerCore [''quit'']) ''/tmp/demo/t.py'' None
            [(ex_frame, Call), (ex_frame, Line)] None
            (\<lambda>e. Some (ExceptionInst ''late''))) = Ret ()"
    by (simp add: r)
  have c2: "map st_exception (ui_queue (snd (run_script (DebuggerCore [''quit''])
            ''/tmp/demo/t.py'' None [(ex_frame, Call), (ex_frame, Line)] None
            (\<lambda>e. Some (ExceptionInst ''late''))))) = [None, Some ''late'']"
    by (simp add: r t(2) error_state_def)
  have c3: "map st_lineno (ui_queue (snd (run_script (DebuggerCore [''quit''])
            ''/tmp/demo/t.py'' None [(ex_frame, Call), (ex_frame, Line)] None
            (\<lambda>e. Some (ExceptionInst ''late''))))) = [3, 0]"
    by (simp add: r t(3) error_state_def)
  show ?thesis by (intro conjI) (rule t(1) c1 c2 c3)+
qed

subsection \<open>An exception that escapes the target\<close>






section \<open>Properties of the process entry\<close>



end
